theory Spec2Isabelle
  imports Main
begin

section \<open>JavaScript values used by the REST store\<close>

text \<open>
  The store handles JSON documents (response bodies) and plain option objects. A JSON
  number is kept as an integer: the code only tests numbers for being zero. An object is
  an association list in insertion order; the objects the code receives have distinct
  keys.
\<close>

datatype json =
    JNull
  | JBool bool
  | JNum int
  | JStr string
  | JArr "json list"
  | JObj "(string \<times> json) list"

type_synonym jsobj = "(string \<times> json) list"

text \<open>JavaScript truthiness of a value; \<open>undefined\<close> is the absent value \<open>None\<close>.\<close>

fun truthy :: "json \<Rightarrow> bool" where
  "truthy JNull = False"
| "truthy (JBool b) = b"
| "truthy (JNum n) = (n \<noteq> 0)"
| "truthy (JStr s) = (s \<noteq> [])"
| "truthy (JArr xs) = True"
| "truthy (JObj kvs) = True"

definition truthy_opt :: "json option \<Rightarrow> bool" where
  "truthy_opt v = (case v of None \<Rightarrow> False | Some x \<Rightarrow> truthy x)"

text \<open>
  Reading a named member \<open>v.k\<close>. It is used with the names \<open>error_description\<close> and
  \<open>error\<close> only, which arrays, strings, numbers and booleans do not have.
\<close>

fun member_of :: "json \<Rightarrow> string \<Rightarrow> json option" where
  "member_of (JObj kvs) k = map_of kvs k"
| "member_of v k = None"

text \<open>The decimal rendering of a natural number, as a template literal prints it.\<close>

definition digit_char :: "nat \<Rightarrow> char" where
  "digit_char d = char_of (48 + d)"

fun show_nat :: "nat \<Rightarrow> string" where
  "show_nat n = (if n < 10 then [digit_char n] else show_nat (n div 10) @ [digit_char (n mod 10)])"

declare show_nat.simps [simp del]

text \<open>
  The own enumerable entries of a value, as object spread and \<open>Object.keys\<close> see them:
  the members of an object, the indexed elements of an array, the indexed characters of a
  string, and nothing for the other values.
\<close>

fun indexed :: "nat \<Rightarrow> json list \<Rightarrow> jsobj" where
  "indexed i [] = []"
| "indexed i (x # xs) = (show_nat i, x) # indexed (Suc i) xs"

fun own_entries :: "json \<Rightarrow> jsobj" where
  "own_entries (JObj kvs) = kvs"
| "own_entries (JArr xs) = indexed 0 xs"
| "own_entries (JStr s) = indexed 0 (map (\<lambda>c. JStr [c]) s)"
| "own_entries v = []"

text \<open>
  Assigning a member keeps the position of a key that is already there and appends a new
  key at the end; spreading \<open>b\<close> into a copy of \<open>a\<close> assigns the entries of \<open>b\<close> in order.
\<close>

fun obj_set :: "string \<Rightarrow> json \<Rightarrow> jsobj \<Rightarrow> jsobj" where
  "obj_set k v [] = [(k, v)]"
| "obj_set k v (p # ps) = (if fst p = k then (k, v) # ps else p # obj_set k v ps)"

definition spread :: "jsobj \<Rightarrow> jsobj \<Rightarrow> jsobj" where
  "spread a b = fold (\<lambda>(k, v). obj_set k v) b a"

text \<open>The rest of a destructuring pattern: the entries whose keys the pattern did not name.\<close>

definition rest_of :: "string list \<Rightarrow> jsobj \<Rightarrow> jsobj" where
  "rest_of ks obj = filter (\<lambda>(k, v). k \<notin> set ks) obj"

text \<open>
  The conversion of a value to a string by the \<open>Error\<close> constructor: a string is itself;
  the rendering of the other values is the platform's, taken as the parameter \<open>tostr\<close>.
\<close>

definition to_message :: "(json \<Rightarrow> string) \<Rightarrow> json \<Rightarrow> string" where
  "to_message tostr v = (case v of JStr s \<Rightarrow> s | _ \<Rightarrow> tostr v)"

section \<open>Request options and error messages\<close>

definition standard_headers :: jsobj where
  "standard_headers =
     [(''Content-Type'', JStr ''application/json''), (''Cache-Control'', JStr ''no-cache'')]"

definition standard :: jsobj where
  "standard =
     [(''headers'', JObj standard_headers),
      (''credentials'', JStr ''include''),
      (''mode'', JStr ''same-origin'')]"

text \<open>
  \<open>buildOptions\<close>: caller headers are merged over the standard headers, then the options are
  spread over the standard options.
\<close>

definition buildOptions :: "jsobj \<Rightarrow> jsobj" where
  "buildOptions options =
     (let options' =
            (case map_of options ''headers'' of
               Some h \<Rightarrow>
                 if truthy h
                 then obj_set ''headers'' (JObj (spread standard_headers (own_entries h))) options
                 else options
             | None \<Rightarrow> options)
      in spread standard options')"

text \<open>
  \<open>body && body.k\<close> used as a condition: the member when the body and the member are both
  truthy.
\<close>

definition truthy_member :: "json \<Rightarrow> string \<Rightarrow> json option" where
  "truthy_member body k =
     (if truthy body
      then (case member_of body k of
              Some v \<Rightarrow> if truthy v then Some v else None
            | None \<Rightarrow> None)
      else None)"

text \<open>
  \<open>responseErrorMsg\<close>; \<open>stringify\<close> is the platform's \<open>JSON.stringify\<close>. The result is
  the member's value as it is, or the fallback string.
\<close>

definition responseErrorMsg :: "(json \<Rightarrow> string) \<Rightarrow> nat \<Rightarrow> json \<Rightarrow> json" where
  "responseErrorMsg stringify st body =
     (case truthy_member body ''error_description'' of
        Some v \<Rightarrow> v
      | None \<Rightarrow>
          (case truthy_member body ''error'' of
             Some v \<Rightarrow> v
           | None \<Rightarrow> JStr (show_nat st @ '' - '' @ stringify body)))"

section \<open>The store and its environment\<close>

text \<open>
  A failure a promise is rejected with: an \<open>Error\<close> built by the store, with its message
  and the \<open>status\<close> and \<open>body\<close> members attached to it (absent when not attached), or the
  \<open>SyntaxError\<close> of a body that is not JSON.
\<close>

datatype failure =
    JsError (message: string) (err_status: "nat option") (err_body: "json option")
  | SyntaxError

text \<open>
  What became of a call's promise in one step: resolved, rejected, or left pending.
\<close>

datatype ('a, 'e) settled = Resolves 'a | Rejects 'e | Unsettled

text \<open>
  The promise a refresh creates, with the place where its executor is suspended: waiting
  for the response of the refresh call, waiting for the body of a failed response, or
  abandoned (the executor threw, so neither \<open>resolve\<close> nor \<open>reject\<close> is ever called and
  the \<open>finally\<close> handler never runs).
\<close>

datatype promise_state =
    Unused
  | AwaitingResponse
  | AwaitingBody nat
  | Abandoned
  | Fulfilled
  | Rejected failure

fun is_settled :: "promise_state \<Rightarrow> bool" where
  "is_settled Fulfilled = True"
| "is_settled (Rejected e) = True"
| "is_settled s = False"

fun is_active :: "promise_state \<Rightarrow> bool" where
  "is_active AwaitingResponse = True"
| "is_active (AwaitingBody st) = True"
| "is_active s = False"

text \<open>
  The request an upload sends: method, path, the headers set on it, and the fields of the
  form in the order they were appended.
\<close>

datatype form_value = TextField string | FileData string

record xhr_request =
  xhr_method :: json
  xhr_url :: string
  xhr_headers :: jsobj
  xhr_form :: "(string \<times> form_value) list"

text \<open>
  The observable fields of the store, its in-flight handle, and the part of the browser it
  acts on: the persisted clock (the \<open>auth.lastRefreshed\<close> entry of local storage, absent
  or the timestamp last written), the promises created by refreshes, the log of the
  calls handed to \<open>window.fetch\<close>, and the log of the requests handed to \<open>xhr.send\<close>.
\<close>

record world =
  expired :: bool
  status :: nat
  error :: json
  uploadError :: string
  refreshPromise :: "nat option"
  lastRefreshed :: "int option"
  promises :: "nat \<Rightarrow> promise_state"
  nextPromise :: nat
  netlog :: "(string \<times> jsobj) list"
  xhrlog :: "xhr_request list"

definition REFRESH_TIMEOUT :: int where
  "REFRESH_TIMEOUT = 900000 - 3"

definition ACCESS_TIMEOUT :: int where
  "ACCESS_TIMEOUT = 60000 - 3"

text \<open>The field initialisers of the class; the persisted clock is whatever the browser holds.\<close>

definition new_store :: "int option \<Rightarrow> world" where
  "new_store stored =
     \<lparr>expired = False, status = 200, error = JStr [], uploadError = [],
      refreshPromise = None, lastRefreshed = stored,
      promises = (\<lambda>p. Unused), nextPromise = 0, netlog = [], xhrlog = []\<rparr>"

definition getLastRefresh :: "world \<Rightarrow> int" where
  "getLastRefresh w = (case lastRefreshed w of None \<Rightarrow> 0 | Some t \<Rightarrow> t)"

definition updateLastRefresh :: "int \<Rightarrow> world \<Rightarrow> world" where
  "updateLastRefresh now w = w\<lparr>lastRefreshed := Some now\<rparr>"

definition clearLastRefresh :: "world \<Rightarrow> world" where
  "clearLastRefresh w = w\<lparr>lastRefreshed := None\<rparr>"

definition resetExpired :: "world \<Rightarrow> world" where
  "resetExpired w = w\<lparr>expired := False\<rparr>"

definition clearError :: "world \<Rightarrow> world" where
  "clearError w = w\<lparr>status := 200, error := JStr [], uploadError := []\<rparr>"

text \<open>The callback of the session watch timer, run at clock reading \<open>now\<close>.\<close>

definition sessionWatch :: "int \<Rightarrow> world \<Rightarrow> world" where
  "sessionWatch now w =
     (if getLastRefresh w + REFRESH_TIMEOUT < now then w\<lparr>expired := True\<rparr> else w)"

section \<open>The refresh coordinator\<close>

text \<open>
  What \<open>refresh()\<close> hands back: nothing to wait for, or the promise with the given handle.
\<close>

datatype refresh_result = Immediate | Awaits nat

definition refresh_request :: "string \<times> jsobj" where
  "refresh_request = (''/api/auth/refresh'', buildOptions [(''method'', JStr ''POST'')])"

text \<open>
  The synchronous part of \<open>refresh()\<close>. The clock is read twice: \<open>now\<close> by the freshness
  test and \<open>now'\<close> by \<open>updateLastRefresh\<close>. The executor of the new promise runs up to
  its first suspension, which is after \<open>window.fetch\<close> has been called.
\<close>

definition refresh :: "int \<Rightarrow> int \<Rightarrow> world \<Rightarrow> refresh_result \<times> world" where
  "refresh now now' w =
     (case refreshPromise w of
        Some p \<Rightarrow> (Awaits p, w)
      | None \<Rightarrow>
          if getLastRefresh w + ACCESS_TIMEOUT > now then (Immediate, w)
          else
            (let w1 = updateLastRefresh now' w;
                 p = nextPromise w1;
                 w2 = w1\<lparr>netlog := netlog w1 @ [refresh_request],
                         promises := (promises w1)(p := AwaitingResponse),
                         nextPromise := Suc p\<rparr>
             in (Awaits p, w2\<lparr>refreshPromise := Some p\<rparr>)))"

text \<open>
  The response of the refresh call arrives for promise \<open>p\<close>. Status 200 resolves the
  promise and the \<open>finally\<close> handler clears the handle; any other status sets the expiry
  flag and suspends on the body.
\<close>

definition refresh_response :: "nat \<Rightarrow> nat \<Rightarrow> world \<Rightarrow> world" where
  "refresh_response p st w =
     (if promises w p = AwaitingResponse
      then (if st = 200
            then w\<lparr>expired := False, promises := (promises w)(p := Fulfilled),
                   refreshPromise := None\<rparr>
            else w\<lparr>expired := True, promises := (promises w)(p := AwaitingBody st)\<rparr>)
      else w)"

text \<open>
  \<open>window.fetch\<close> rejects for promise \<open>p\<close>: the \<open>await\<close> throws inside the executor.
\<close>

definition refresh_transport_failure :: "nat \<Rightarrow> world \<Rightarrow> world" where
  "refresh_transport_failure p w =
     (if promises w p = AwaitingResponse
      then w\<lparr>promises := (promises w)(p := Abandoned)\<rparr>
      else w)"

text \<open>
  The body of a failed refresh response arrives: \<open>Some body\<close> when it is JSON, \<open>None\<close>
  when \<open>response.json()\<close> rejects, which throws inside the executor.
\<close>

definition refresh_body ::
  "(json \<Rightarrow> string) \<Rightarrow> (json \<Rightarrow> string) \<Rightarrow> nat \<Rightarrow> json option \<Rightarrow> world \<Rightarrow> world" where
  "refresh_body stringify tostr p body w =
     (case promises w p of
        AwaitingBody st \<Rightarrow>
          (case body of
             None \<Rightarrow> w\<lparr>promises := (promises w)(p := Abandoned)\<rparr>
           | Some b \<Rightarrow>
               (let msg = responseErrorMsg stringify st b
                in w\<lparr>error := msg,
                      promises := (promises w)
                        (p := Rejected (JsError (to_message tostr msg) (Some st) (Some b))),
                      refreshPromise := None\<rparr>))
      | _ \<Rightarrow> w)"

text \<open>What a caller holding a result of \<open>refresh()\<close> observes in a later state.\<close>

fun observed :: "world \<Rightarrow> refresh_result \<Rightarrow> promise_state" where
  "observed w Immediate = Fulfilled"
| "observed w (Awaits p) = promises w p"

section \<open>The request client\<close>

text \<open>
  The query of the options, serialised by \<open>qs.stringify\<close> (the parameter \<open>qs\<close>), is
  appended to the path when it is truthy and has keys.
\<close>

definition with_query :: "(json \<Rightarrow> string) \<Rightarrow> string \<Rightarrow> jsobj \<Rightarrow> string" where
  "with_query qs url options =
     (case map_of options ''query'' of
        Some q \<Rightarrow>
          if truthy q \<and> own_entries q \<noteq> []
          then url @ (if CHR ''?'' \<notin> set url then ''?'' else ''&'') @ qs q
          else url
      | None \<Rightarrow> url)"

text \<open>
  Where a \<open>fetch\<close> call stands: suspended on the refresh promise \<open>p\<close> (with the path, the
  request options and the \<open>skip401\<close> flag it will go on with), past \<open>window.fetch\<close> and
  waiting for the response, or rejected with the failure of the refresh.
\<close>

datatype fetch_phase =
    Gated nat string jsobj bool
  | Sent string jsobj bool
  | Aborted failure

definition fetch_send :: "string \<Rightarrow> jsobj \<Rightarrow> bool \<Rightarrow> world \<Rightarrow> fetch_phase \<times> world" where
  "fetch_send url requestOptions skip401 w =
     (Sent url (buildOptions requestOptions) skip401,
      w\<lparr>netlog := netlog w @ [(url, buildOptions requestOptions)]\<rparr>)"

text \<open>
  \<open>fetch\<close> up to its first suspension that the caller can observe: the destructuring of
  the options, the path, and the gate \<open>if (!options.skipRefresh && recordActivity)\<close>.
\<close>

definition fetch_begin ::
  "(json \<Rightarrow> string) \<Rightarrow> string \<Rightarrow> jsobj \<Rightarrow> bool \<Rightarrow> int \<Rightarrow> int \<Rightarrow> world \<Rightarrow> fetch_phase \<times> world" where
  "fetch_begin qs url options recordActivity now now' w =
     (let skip401 = truthy_opt (map_of options ''skip401'');
          requestOptions = rest_of [''query'', ''skip401''] options;
          url' = with_query qs url options
      in if \<not> truthy_opt (map_of options ''skipRefresh'') \<and> recordActivity
         then (case refresh now now' w of
                 (Immediate, w') \<Rightarrow> fetch_send url' requestOptions skip401 w'
               | (Awaits p, w') \<Rightarrow> (Gated p url' requestOptions skip401, w'))
         else fetch_send url' requestOptions skip401 w)"

text \<open>A suspended \<open>fetch\<close> goes on once the promise it waits for has settled.\<close>

definition fetch_resume :: "fetch_phase \<Rightarrow> world \<Rightarrow> fetch_phase \<times> world" where
  "fetch_resume ph w =
     (case ph of
        Gated p url requestOptions skip401 \<Rightarrow>
          (case promises w p of
             Fulfilled \<Rightarrow> fetch_send url requestOptions skip401 w
           | Rejected e \<Rightarrow> (Aborted e, w)
           | _ \<Rightarrow> (ph, w))
      | _ \<Rightarrow> (ph, w))"

text \<open>
  A response: its status, its text, and what \<open>response.json()\<close> gives (\<open>None\<close> when the
  text is not JSON and the parse rejects). \<open>response.ok\<close> is a status from 200 to 299.
\<close>

record response =
  resp_status :: nat
  resp_text :: string
  resp_json :: "json option"

definition resp_ok :: "response \<Rightarrow> bool" where
  "resp_ok r = (200 \<le> resp_status r \<and> resp_status r \<le> 299)"

text \<open>The handler of the response in \<open>fetch\<close>, for a call made with the flag \<open>skip401\<close>.\<close>

definition fetch_response ::
  "(json \<Rightarrow> string) \<Rightarrow> (json \<Rightarrow> string) \<Rightarrow> bool \<Rightarrow> response \<Rightarrow> world
     \<Rightarrow> (json, failure) settled \<times> world" where
  "fetch_response stringify tostr skip401 r w =
     (let w1 = (if skip401 \<and> resp_status r = 401
                then w\<lparr>status := 200\<rparr>
                else w\<lparr>status := resp_status r\<rparr>)
      in if resp_ok r
         then ((case resp_json r of Some b \<Rightarrow> Resolves b | None \<Rightarrow> Rejects SyntaxError),
               w1\<lparr>error := JStr []\<rparr>)
         else if resp_status r = 504
         then (Rejects (JsError (resp_text r) None
                          (Some (JObj [(''error'', JStr (resp_text r))]))), w1)
         else (case resp_json r of
                 None \<Rightarrow> (Unsettled, w1)
               | Some body \<Rightarrow>
                   (let msg = responseErrorMsg stringify (resp_status r) body
                    in (Rejects (JsError (to_message tostr msg) (Some (resp_status r)) (Some body)),
                        w1\<lparr>error := msg\<rparr>))))"

section \<open>The upload client\<close>

text \<open>
  Where an \<open>upload\<close> call stands: suspended on the refresh promise \<open>p\<close> (with the request
  it will send, or \<open>None\<close> when building the request will throw), past \<open>xhr.send\<close>, ended
  by an exception thrown in its executor (its promise is never settled and nothing is
  sent), or rejected with the failure of the refresh.
\<close>

datatype upload_phase =
    UGated nat "xhr_request option"
  | USent xhr_request
  | UThrown
  | UAborted failure

text \<open>
  The request is built from \<open>const { method = 'POST', query, headers = {}, ...data } =
  options\<close>: every remaining entry of the options becomes a form field holding
  \<open>JSON.stringify\<close> of its value, and the file, kept as its content, is appended last.
  Nothing is appended or sent when an earlier statement throws: \<open>Object.entries(headers)\<close>
  throws for \<open>headers: null\<close>, and \<open>opened\<close> tells whether the platform's \<open>xhr.open\<close> and
  \<open>xhr.setRequestHeader\<close> accept the method, the path and the headers of this call (they
  throw when they do not). The result is \<open>None\<close> when one of them throws.
\<close>

definition upload_request ::
  "(json \<Rightarrow> string) \<Rightarrow> (json \<Rightarrow> string) \<Rightarrow> bool \<Rightarrow> string \<Rightarrow> string \<Rightarrow> jsobj
     \<Rightarrow> xhr_request option" where
  "upload_request qs stringify opened url file options =
     (let method = (case map_of options ''method'' of Some m \<Rightarrow> m | None \<Rightarrow> JStr ''POST'');
          headers = map_of options ''headers'';
          data = rest_of [''method'', ''query'', ''headers''] options
      in if \<not> opened \<or> headers = Some JNull then None
         else Some
           \<lparr>xhr_method = method,
            xhr_url = with_query qs url options,
            xhr_headers = (case headers of Some h \<Rightarrow> own_entries h | None \<Rightarrow> []),
            xhr_form = map (\<lambda>(k, v). (k, TextField (stringify v))) data
                         @ [(''file'', FileData file)]\<rparr>)"

text \<open>
  The part of \<open>upload\<close> after the gate: the request is built and handed to \<open>xhr.send\<close>, or
  the executor ends with the exception.
\<close>

definition upload_send :: "xhr_request option \<Rightarrow> world \<Rightarrow> upload_phase \<times> world" where
  "upload_send req w =
     (case req of
        Some r \<Rightarrow> (USent r, w\<lparr>xhrlog := xhrlog w @ [r]\<rparr>)
      | None \<Rightarrow> (UThrown, w))"

definition upload_begin ::
  "(json \<Rightarrow> string) \<Rightarrow> (json \<Rightarrow> string) \<Rightarrow> bool \<Rightarrow> string \<Rightarrow> string \<Rightarrow> jsobj \<Rightarrow> bool
     \<Rightarrow> int \<Rightarrow> int \<Rightarrow> world \<Rightarrow> upload_phase \<times> world" where
  "upload_begin qs stringify opened url file options recordActivity now now' w =
     (let req = upload_request qs stringify opened url file options
      in if \<not> truthy_opt (map_of options ''skipRefresh'') \<and> recordActivity
         then (case refresh now now' w of
                 (Immediate, w') \<Rightarrow> upload_send req w'
               | (Awaits p, w') \<Rightarrow> (UGated p req, w'))
         else upload_send req w)"

definition upload_resume :: "upload_phase \<Rightarrow> world \<Rightarrow> upload_phase \<times> world" where
  "upload_resume ph w =
     (case ph of
        UGated p req \<Rightarrow>
          (case promises w p of
             Fulfilled \<Rightarrow> upload_send req w
           | Rejected e \<Rightarrow> (UAborted e, w)
           | _ \<Rightarrow> (ph, w))
      | _ \<Rightarrow> (ph, w))"

text \<open>
  The request object when \<open>onreadystatechange\<close> runs: its ready state, status and response
  text, and what \<open>JSON.parse\<close> makes of that text (\<open>None\<close> when it throws).
\<close>

record xhr =
  readyState :: nat
  xhr_status :: nat
  responseText :: string
  responseJSON :: "json option"

text \<open>
  \<open>onreadystatechange\<close>. When \<open>JSON.parse\<close> throws, the handler ends there and the promise
  of the upload is neither resolved nor rejected by it.
\<close>

definition upload_readystatechange :: "xhr \<Rightarrow> world \<Rightarrow> (json, json) settled \<times> world" where
  "upload_readystatechange x w =
     (let w1 = w\<lparr>status := xhr_status x\<rparr>
      in if readyState x = 4 \<and> xhr_status x = 200
         then ((case responseJSON x of Some j \<Rightarrow> Resolves j | None \<Rightarrow> Unsettled),
               w1\<lparr>uploadError := []\<rparr>)
         else if readyState x = 4 \<and> xhr_status x \<noteq> 200
         then ((case responseJSON x of Some j \<Rightarrow> Rejects j | None \<Rightarrow> Unsettled),
               w1\<lparr>uploadError := responseText x\<rparr>)
         else (Unsettled, w1))"

section \<open>Runs of the event loop\<close>

text \<open>
  One turn of the event loop that touches the store: a call of one of its methods, a
  network event of a refresh, the continuation of a suspended request, or a tick of the
  session watch.
\<close>

datatype event =
    CallRefresh int int
  | RefreshResponse nat nat
  | RefreshTransportFailure nat
  | RefreshBody nat "json option"
  | WatchTick int
  | CallFetch string jsobj bool int int
  | FetchResume fetch_phase
  | FetchResponse bool response
  | CallUpload bool string string jsobj bool int int
  | UploadResume upload_phase
  | UploadReadyStateChange xhr
  | UpdateLastRefresh int
  | ClearLastRefresh
  | ResetExpired
  | ClearError

fun step :: "(json \<Rightarrow> string) \<Rightarrow> (json \<Rightarrow> string) \<Rightarrow> (json \<Rightarrow> string) \<Rightarrow> event \<Rightarrow> world \<Rightarrow> world" where
  "step qs stringify tostr (CallRefresh now now') w = snd (refresh now now' w)"
| "step qs stringify tostr (RefreshResponse p st) w = refresh_response p st w"
| "step qs stringify tostr (RefreshTransportFailure p) w = refresh_transport_failure p w"
| "step qs stringify tostr (RefreshBody p body) w = refresh_body stringify tostr p body w"
| "step qs stringify tostr (WatchTick now) w = sessionWatch now w"
| "step qs stringify tostr (CallFetch url options recordActivity now now') w =
     snd (fetch_begin qs url options recordActivity now now' w)"
| "step qs stringify tostr (FetchResume ph) w = snd (fetch_resume ph w)"
| "step qs stringify tostr (FetchResponse skip401 r) w =
     snd (fetch_response stringify tostr skip401 r w)"
| "step qs stringify tostr (CallUpload opened url file options recordActivity now now') w =
     snd (upload_begin qs stringify opened url file options recordActivity now now' w)"
| "step qs stringify tostr (UploadResume ph) w = snd (upload_resume ph w)"
| "step qs stringify tostr (UploadReadyStateChange x) w = snd (upload_readystatechange x w)"
| "step qs stringify tostr (UpdateLastRefresh now) w = updateLastRefresh now w"
| "step qs stringify tostr ClearLastRefresh w = clearLastRefresh w"
| "step qs stringify tostr ResetExpired w = resetExpired w"
| "step qs stringify tostr ClearError w = clearError w"

definition run ::
  "(json \<Rightarrow> string) \<Rightarrow> (json \<Rightarrow> string) \<Rightarrow> (json \<Rightarrow> string) \<Rightarrow> event list \<Rightarrow> world \<Rightarrow> world" where
  "run qs stringify tostr evs w = fold (step qs stringify tostr) evs w"

text \<open>Calling \<open>refresh()\<close> once per pair of clock readings, collecting what each call hands back.\<close>

fun refresh_calls :: "(int \<times> int) list \<Rightarrow> world \<Rightarrow> refresh_result list \<times> world" where
  "refresh_calls [] w = ([], w)"
| "refresh_calls (t # ts) w =
     (case refresh (fst t) (snd t) w of
        (r, w') \<Rightarrow> (case refresh_calls ts w' of (rs, w'') \<Rightarrow> (r # rs, w'')))"

section \<open>The session watch timer\<close>

text \<open>
  The constructor starts the watcher with \<open>setInterval(\<dots>, 5000)\<close>. A timer started at
  \<open>t0\<close> that runs on time makes its \<open>k\<close>-th run at \<open>tick_time t0 k\<close>.
\<close>

definition WATCH_INTERVAL :: int where
  "WATCH_INTERVAL = 5000"

definition tick_time :: "int \<Rightarrow> nat \<Rightarrow> int" where
  "tick_time t0 k = t0 + WATCH_INTERVAL * int k"

section \<open>Invariants of the refresh state\<close>

text \<open>
  In every state the store reaches, a promise whose executor is still suspended is the one
  the in-flight handle holds, and the promise the handle holds has not settled.
\<close>

definition coherent :: "world \<Rightarrow> bool" where
  "coherent w =
     ((\<forall>q. is_active (promises w q) \<longrightarrow> refreshPromise w = Some q) \<and>
      (\<forall>p. refreshPromise w = Some p \<longrightarrow> \<not> is_settled (promises w p)))"

text \<open>
  The state after the transport of a refresh has failed: the handle holds an abandoned
  promise and no executor is suspended any more.
\<close>

definition stuck :: "nat \<Rightarrow> world \<Rightarrow> bool" where
  "stuck p w =
     (refreshPromise w = Some p \<and> promises w p = Abandoned \<and> (\<forall>q. \<not> is_active (promises w q)))"

section \<open>Objects\<close>

lemma keys_obj_set: "fst ` set (obj_set k v ps) = insert k (fst ` set ps)"
  by (induction ps) auto

lemma keys_spread: "fst ` set (spread a b) = fst ` set a \<union> fst ` set b"
  unfolding spread_def
  by (induction b arbitrary: a) (simp_all add: keys_obj_set case_prod_beta)

lemma map_of_obj_set: "map_of (obj_set k v ps) = (map_of ps)(k \<mapsto> v)"
  by (induction ps) (auto simp: fun_eq_iff)

lemma map_of_spread: "map_of (spread a b) = map_of a ++ map_of (rev b)"
  unfolding spread_def
  by (induction b arbitrary: a) (auto simp: map_of_obj_set fun_eq_iff map_add_def split: option.splits)

lemma map_of_rev_distinct: "distinct (map fst b) \<Longrightarrow> map_of (rev b) = map_of b"
proof (induction b)
  case Nil
  then show ?case by simp
next
  case (Cons x b)
  then have "fst x \<notin> dom (map_of b)"
    by (simp add: dom_map_of_conv_image_fst)
  then have "[fst x \<mapsto> snd x] ++ map_of b = (map_of b)(fst x \<mapsto> snd x)"
    using map_add_upd_left [of "fst x" "map_of b" Map.empty "snd x"] by simp
  with Cons show ?case by simp
qed

lemma keys_rest_of: "fst ` set (rest_of ks obj) = fst ` set obj - set ks"
  by (auto simp: rest_of_def image_iff)

lemma distinct_rest_of: "distinct (map fst obj) \<Longrightarrow> distinct (map fst (rest_of ks obj))"
  by (simp add: rest_of_def distinct_map_filter)

lemma map_of_rest_of: "map_of (rest_of ks obj) k = (if k \<in> set ks then None else map_of obj k)"
  unfolding rest_of_def by (induction obj) auto

lemma distinct_obj_set: "distinct (map fst ps) \<Longrightarrow> distinct (map fst (obj_set k v ps))"
  by (induction ps) (auto simp: keys_obj_set)

lemma keys_buildOptions: "fst ` set (buildOptions ro) = fst ` set standard \<union> fst ` set ro"
  by (auto simp: buildOptions_def Let_def keys_spread keys_obj_set standard_def split: option.splits)

lemma map_of_buildOptions_other:
  assumes "distinct (map fst ro)" "k \<noteq> ''headers''"
  shows "map_of (buildOptions ro) k =
           (case map_of ro k of Some v \<Rightarrow> Some v | None \<Rightarrow> map_of standard k)"
proof -
  define ro' where "ro' =
     (case map_of ro ''headers'' of
        Some h \<Rightarrow>
          if truthy h
          then obj_set ''headers'' (JObj (spread standard_headers (own_entries h))) ro
          else ro
      | None \<Rightarrow> ro)"
  have d: "distinct (map fst ro')"
    using assms(1) by (simp add: ro'_def distinct_obj_set split: option.splits)
  have m: "map_of ro' k = map_of ro k"
    using assms(2) by (simp add: ro'_def map_of_obj_set split: option.splits)
  have "buildOptions ro = spread standard ro'"
    by (simp add: buildOptions_def ro'_def)
  then show ?thesis
    by (simp add: map_of_spread map_of_rev_distinct [OF d] m map_add_def split: option.splits)
qed

section \<open>Preservation of the invariants\<close>

lemma coherent_new_store: "coherent (new_store stored)"
  by (simp add: coherent_def new_store_def)

lemma refresh_in_flight: "refreshPromise w = Some p \<Longrightarrow> refresh now now' w = (Awaits p, w)"
  by (simp add: refresh_def)

lemma coherent_refresh: "coherent w \<Longrightarrow> coherent (snd (refresh now now' w))"
  by (auto simp: coherent_def refresh_def updateLastRefresh_def Let_def split: option.splits)

lemma coherent_only_active:
  "coherent w \<Longrightarrow> is_active (promises w p) \<Longrightarrow> is_active (promises w q) \<Longrightarrow> q = p"
  unfolding coherent_def by (metis option.inject)

lemma coherent_refresh_response:
  assumes "coherent w"
  shows "coherent (refresh_response p st w)"
proof (cases "promises w p = AwaitingResponse")
  case False
  then show ?thesis using assms by (simp add: refresh_response_def)
next
  case True
  have only: "\<And>q. is_active (promises w q) \<Longrightarrow> q = p"
    using coherent_only_active [OF assms, of p] True by simp
  have handle: "refreshPromise w = Some p"
    using assms True by (simp add: coherent_def)
  show ?thesis
    using True only handle by (auto simp: coherent_def refresh_response_def)
qed

lemma coherent_refresh_transport_failure: "coherent w \<Longrightarrow> coherent (refresh_transport_failure p w)"
  by (auto simp: coherent_def refresh_transport_failure_def)

lemma coherent_refresh_body:
  assumes "coherent w"
  shows "coherent (refresh_body stringify tostr p body w)"
proof (cases "promises w p")
  case (AwaitingBody st)
  have only: "\<And>q. is_active (promises w q) \<Longrightarrow> q = p"
    using coherent_only_active [OF assms, of p] AwaitingBody by simp
  have handle: "refreshPromise w = Some p"
    using assms AwaitingBody by (simp add: coherent_def)
  show ?thesis
    using AwaitingBody only handle
    by (cases body) (auto simp: coherent_def refresh_body_def Let_def)
qed (use assms in \<open>simp_all add: refresh_body_def\<close>)

lemma coherent_cong:
  "coherent w \<Longrightarrow> promises w' = promises w \<Longrightarrow> refreshPromise w' = refreshPromise w \<Longrightarrow> coherent w'"
  by (simp add: coherent_def)

lemma fetch_send_frame:
  "promises (snd (fetch_send url ro s w)) = promises w"
  "refreshPromise (snd (fetch_send url ro s w)) = refreshPromise w"
  by (simp_all add: fetch_send_def)

lemma coherent_fetch_begin: "coherent w \<Longrightarrow> coherent (snd (fetch_begin qs url options rec now now' w))"
  using coherent_refresh [of w now now']
  by (auto simp: fetch_begin_def Let_def fetch_send_frame split: prod.splits refresh_result.splits
      elim: coherent_cong)

lemma fetch_resume_frame:
  "promises (snd (fetch_resume ph w)) = promises w"
  "refreshPromise (snd (fetch_resume ph w)) = refreshPromise w"
  by (simp_all add: fetch_resume_def fetch_send_def split: fetch_phase.splits promise_state.splits)

lemma fetch_response_frame:
  "promises (snd (fetch_response stringify tostr s r w)) = promises w"
  "refreshPromise (snd (fetch_response stringify tostr s r w)) = refreshPromise w"
  by (simp_all add: fetch_response_def Let_def split: option.splits)

lemma upload_send_frame:
  "promises (snd (upload_send req w)) = promises w"
  "refreshPromise (snd (upload_send req w)) = refreshPromise w"
  by (simp_all add: upload_send_def split: option.splits)

lemma coherent_upload_begin:
  "coherent w \<Longrightarrow>
   coherent (snd (upload_begin qs stringify opened url file options rec now now' w))"
  using coherent_refresh [of w now now']
  by (auto simp: upload_begin_def Let_def upload_send_frame
      split: prod.splits refresh_result.splits elim: coherent_cong)

lemma upload_resume_frame:
  "promises (snd (upload_resume ph w)) = promises w"
  "refreshPromise (snd (upload_resume ph w)) = refreshPromise w"
  by (simp_all add: upload_resume_def upload_send_frame
      split: upload_phase.splits promise_state.splits)

lemma upload_readystatechange_frame:
  "promises (snd (upload_readystatechange x w)) = promises w"
  "refreshPromise (snd (upload_readystatechange x w)) = refreshPromise w"
  by (simp_all add: upload_readystatechange_def Let_def split: option.splits)

lemma coherent_step: "coherent w \<Longrightarrow> coherent (step qs stringify tostr ev w)"
proof (cases ev)
  case (WatchTick now)
  then show "coherent w \<Longrightarrow> ?thesis"
    by (auto simp: sessionWatch_def elim: coherent_cong)
qed (auto simp: coherent_refresh coherent_refresh_response coherent_refresh_transport_failure
      coherent_refresh_body coherent_fetch_begin coherent_upload_begin
      fetch_resume_frame fetch_response_frame upload_readystatechange_frame
      upload_resume_frame
      updateLastRefresh_def clearLastRefresh_def resetExpired_def clearError_def
      elim: coherent_cong)

lemma coherent_run: "coherent w \<Longrightarrow> coherent (run qs stringify tostr evs w)"
  unfolding run_def by (induction evs arbitrary: w) (simp_all add: coherent_step)


lemma stuck_cong:
  "stuck p w \<Longrightarrow> promises w' = promises w \<Longrightarrow> refreshPromise w' = refreshPromise w \<Longrightarrow> stuck p w'"
  by (simp add: stuck_def)

lemma stuck_refresh: "stuck p w \<Longrightarrow> refresh now now' w = (Awaits p, w)"
  by (simp add: stuck_def refresh_def)

lemma inactive_noop:
  assumes "\<not> is_active (promises w q)"
  shows "refresh_response q st w = w" "refresh_transport_failure q w = w"
    "refresh_body stringify tostr q body w = w"
  using assms
  by (auto simp: refresh_response_def refresh_transport_failure_def refresh_body_def
      split: promise_state.splits)

lemma stuck_step:
  assumes "stuck p w"
  shows "stuck p (step qs stringify tostr ev w)"
proof -
  have idle: "\<And>q. \<not> is_active (promises w q)"
    using assms by (simp add: stuck_def)
  note frame = stuck_cong [OF assms]
  show ?thesis
  proof (cases ev)
    case (CallRefresh now now')
    then show ?thesis using assms by (simp add: stuck_refresh)
  next
    case (RefreshResponse q st)
    then show ?thesis using assms idle by (simp add: inactive_noop)
  next
    case (RefreshTransportFailure q)
    then show ?thesis using assms idle by (simp add: inactive_noop)
  next
    case (RefreshBody q body)
    then show ?thesis using assms idle by (simp add: inactive_noop)
  next
    case (WatchTick now)
    then show ?thesis using assms by (simp add: sessionWatch_def frame)
  next
    case (CallFetch url options ra now now')
    then show ?thesis
      using assms
      by (simp add: fetch_begin_def Let_def stuck_refresh [OF assms] frame fetch_send_frame)
  next
    case (FetchResume ph)
    then show ?thesis by (simp add: frame fetch_resume_frame)
  next
    case (FetchResponse s r)
    then show ?thesis by (simp add: frame fetch_response_frame)
  next
    case (CallUpload opened url fl options ra now now')
    then show ?thesis
      using assms
      by (simp add: upload_begin_def Let_def stuck_refresh [OF assms] frame upload_send_frame)
  next
    case (UploadResume ph)
    then show ?thesis by (simp add: frame upload_resume_frame)
  next
    case (UploadReadyStateChange x)
    then show ?thesis by (simp add: frame upload_readystatechange_frame)
  next
    case (UpdateLastRefresh now)
    then show ?thesis by (simp add: frame updateLastRefresh_def)
  next
    case ClearLastRefresh
    then show ?thesis by (simp add: frame clearLastRefresh_def)
  next
    case ResetExpired
    then show ?thesis by (simp add: frame resetExpired_def)
  next
    case ClearError
    then show ?thesis by (simp add: frame clearError_def)
  qed
qed

lemma stuck_run: "stuck p w \<Longrightarrow> stuck p (run qs stringify tostr evs w)"
  unfolding run_def by (induction evs arbitrary: w) (simp_all add: stuck_step)

lemma stuck_after_failure:
  assumes "coherent w" "promises w p = AwaitingResponse"
  shows "stuck p (refresh_transport_failure p w)"
proof -
  have only: "\<And>q. is_active (promises w q) \<Longrightarrow> q = p"
    using coherent_only_active [OF assms(1), of p] assms(2) by simp
  have handle: "refreshPromise w = Some p"
    using assms by (simp add: coherent_def)
  show ?thesis
    using assms(2) only handle by (auto simp: stuck_def refresh_transport_failure_def)
qed

lemma refresh_calls_in_flight:
  "refreshPromise w = Some p \<Longrightarrow> refresh_calls ts w = (replicate (length ts) (Awaits p), w)"
  by (induction ts) (simp_all add: refresh_in_flight)

section \<open>Error messages\<close>

lemma member_of_truthy: "member_of body k = Some v \<Longrightarrow> truthy body"
  by (cases body) simp_all

lemma truthy_member_eq:
  "truthy_member body k = (case member_of body k of Some v \<Rightarrow> if truthy v then Some v else None | None \<Rightarrow> None)"
  by (cases body) (simp_all add: truthy_member_def)

section \<open>The refresh coordinator: claims\<close>

text \<open>
  Claim C1. In a state the store has reached in which a refresh is outstanding (the
  in-flight handle holds the promise \<open>p\<close>), that promise is still pending, every further
  call of \<open>refresh()\<close> hands back the same promise and leaves the state as it is, so no
  second refresh call goes to the network, and whatever state comes later, every caller
  observes the state of that one promise.
\<close>

theorem C1_refresh_in_flight_shared:
  assumes "w = run qs stringify tostr evs (new_store stored)"
    and "refreshPromise w = Some p"
  shows "\<not> is_settled (promises w p) \<and>
         refresh_calls ts w = (replicate (length ts) (Awaits p), w) \<and>
         netlog (snd (refresh_calls ts w)) = netlog w \<and>
         (\<forall>w'. \<forall>r \<in> set (fst (refresh_calls ts w)). observed w' r = promises w' p)"
proof -
  have "coherent w"
    unfolding assms(1) by (rule coherent_run) (rule coherent_new_store)
  then have pending: "\<not> is_settled (promises w p)"
    using assms(2) by (simp add: coherent_def)
  have calls: "refresh_calls ts w = (replicate (length ts) (Awaits p), w)"
    using assms(2) by (rule refresh_calls_in_flight)
  show ?thesis
    using pending by (simp add: calls)
qed

theorem C1_refresh_in_flight_shared_witness:
  "refreshPromise
     (run (\<lambda>j. []) (\<lambda>j. []) (\<lambda>j. []) [CallRefresh 1700000000000 1700000000000] (new_store None))
     = Some 0 \<and>
   refresh_calls [(1700000000001, 1700000000001), (1700000000002, 1700000000003)]
     (run (\<lambda>j. []) (\<lambda>j. []) (\<lambda>j. []) [CallRefresh 1700000000000 1700000000000] (new_store None))
     = ([Awaits 0, Awaits 0],
        run (\<lambda>j. []) (\<lambda>j. []) (\<lambda>j. []) [CallRefresh 1700000000000 1700000000000] (new_store None)) \<and>
   \<not> is_settled
       (promises
          (run (\<lambda>j. []) (\<lambda>j. []) (\<lambda>j. []) [CallRefresh 1700000000000 1700000000000] (new_store None))
          0)"
proof -
  have h: "refreshPromise
     (run (\<lambda>j. []) (\<lambda>j. []) (\<lambda>j. []) [CallRefresh 1700000000000 1700000000000] (new_store None))
     = Some 0"
    by (simp add: run_def refresh_def new_store_def getLastRefresh_def ACCESS_TIMEOUT_def
        updateLastRefresh_def Let_def)
  show ?thesis
    using h C1_refresh_in_flight_shared [OF refl h,
        of "[(1700000000001, 1700000000001), (1700000000002, 1700000000003)]"]
    by (simp add: numeral_2_eq_2)
qed

text \<open>
  Claim C2. With no refresh in flight: when \<open>now - lastRefreshedAt < ACCESS_TIMEOUT\<close>,
  \<open>refresh()\<close> returns at once and changes nothing (no network call, persisted clock as
  it was); when \<open>now - lastRefreshedAt \<ge> ACCESS_TIMEOUT\<close>, it issues exactly one network
  call, the refresh request, and on return the persisted clock already holds the reading
  \<open>updateLastRefresh\<close> took, while the new promise still waits for the response.
\<close>

theorem C2_refresh_freshness:
  assumes "refreshPromise w = None"
  shows "(now - getLastRefresh w < ACCESS_TIMEOUT \<longrightarrow> refresh now now' w = (Immediate, w)) \<and>
         (now - getLastRefresh w \<ge> ACCESS_TIMEOUT \<longrightarrow>
            fst (refresh now now' w) = Awaits (nextPromise w) \<and>
            netlog (snd (refresh now now' w)) = netlog w @ [refresh_request] \<and>
            lastRefreshed (snd (refresh now now' w)) = Some now' \<and>
            promises (snd (refresh now now' w)) (nextPromise w) = AwaitingResponse \<and>
            refreshPromise (snd (refresh now now' w)) = Some (nextPromise w))"
  using assms by (auto simp: refresh_def updateLastRefresh_def Let_def)

theorem C2_refresh_freshness_witness:
  "refreshPromise (new_store (Some 1700000000000)) = None \<and>
   refresh 1700000050000 1700000050000 (new_store (Some 1700000000000))
     = (Immediate, new_store (Some 1700000000000)) \<and>
   fst (refresh 1700000060000 1700000060000 (new_store (Some 1700000000000))) = Awaits 0 \<and>
   netlog (snd (refresh 1700000060000 1700000060000 (new_store (Some 1700000000000))))
     = [refresh_request] \<and>
   lastRefreshed (snd (refresh 1700000060000 1700000060000 (new_store (Some 1700000000000))))
     = Some 1700000060000"
proof -
  have h: "refreshPromise (new_store (Some 1700000000000)) = None"
    by (simp add: new_store_def)
  have g: "getLastRefresh (new_store (Some 1700000000000)) = 1700000000000"
    by (simp add: new_store_def getLastRefresh_def)
  have n: "nextPromise (new_store (Some 1700000000000)) = 0"
      "netlog (new_store (Some 1700000000000)) = []"
    by (simp_all add: new_store_def)
  show ?thesis
    using h C2_refresh_freshness [OF h, of 1700000050000 1700000050000]
      C2_refresh_freshness [OF h, of 1700000060000 1700000060000]
    by (simp add: g n ACCESS_TIMEOUT_def)
qed

text \<open>
  Claim C8. When the transport of the refresh call fails, then after any further events
  the in-flight handle still holds the same promise, the promise is abandoned and never
  settles, every later \<open>refresh()\<close> hands that promise back, and every \<open>fetch\<close> and
  \<open>upload\<close> that passes the freshness gate is suspended on it and stays suspended.
\<close>

theorem C8_transport_failure_hangs:
  assumes "w = run qs stringify tostr evs (new_store stored)"
    and "promises w p = AwaitingResponse"
    and "w' = run qs stringify tostr evs' (refresh_transport_failure p w)"
  shows "refreshPromise w' = Some p \<and> promises w' p = Abandoned \<and>
         \<not> is_settled (promises w' p) \<and>
         refresh now now' w' = (Awaits p, w') \<and>
         (\<not> truthy_opt (map_of options ''skipRefresh'') \<and> recordActivity \<longrightarrow>
            fetch_begin qs url options recordActivity now now' w'
              = (Gated p (with_query qs url options) (rest_of [''query'', ''skip401''] options)
                   (truthy_opt (map_of options ''skip401'')), w') \<and>
            upload_begin qs stringify opened url file options recordActivity now now' w'
              = (UGated p (upload_request qs stringify opened url file options), w')) \<and>
         fetch_resume (Gated p u ro s) w' = (Gated p u ro s, w') \<and>
         upload_resume (UGated p req) w' = (UGated p req, w')"
proof -
  have "coherent w"
    unfolding assms(1) by (rule coherent_run) (rule coherent_new_store)
  then have "stuck p (refresh_transport_failure p w)"
    using assms(2) by (rule stuck_after_failure)
  then have st: "stuck p w'"
    unfolding assms(3) by (rule stuck_run)
  have r: "refresh now now' w' = (Awaits p, w')"
    using st by (rule stuck_refresh)
  have a: "promises w' p = Abandoned" and h: "refreshPromise w' = Some p"
    using st by (simp_all add: stuck_def)
  show ?thesis
    by (simp add: a h r fetch_begin_def upload_begin_def Let_def fetch_resume_def
        upload_resume_def)
qed

theorem C8_transport_failure_hangs_witness:
  "promises
     (run (\<lambda>j. []) (\<lambda>j. []) (\<lambda>j. []) [CallRefresh 1700000000000 1700000000000] (new_store None))
     0 = AwaitingResponse \<and>
   refreshPromise
     (run (\<lambda>j. []) (\<lambda>j. []) (\<lambda>j. [])
        [WatchTick 1700000005000, CallRefresh 1700000070000 1700000070000, RefreshResponse 0 200]
        (refresh_transport_failure 0
           (run (\<lambda>j. []) (\<lambda>j. []) (\<lambda>j. []) [CallRefresh 1700000000000 1700000000000]
              (new_store None))))
     = Some 0 \<and>
   fst (fetch_begin (\<lambda>j. []) ''/api/auth/user'' [] True 1700000080000 1700000080000
     (run (\<lambda>j. []) (\<lambda>j. []) (\<lambda>j. [])
        [WatchTick 1700000005000, CallRefresh 1700000070000 1700000070000, RefreshResponse 0 200]
        (refresh_transport_failure 0
           (run (\<lambda>j. []) (\<lambda>j. []) (\<lambda>j. []) [CallRefresh 1700000000000 1700000000000]
              (new_store None)))))
     = Gated 0 ''/api/auth/user'' [] False"
proof -
  have h: "promises
     (run (\<lambda>j. []) (\<lambda>j. []) (\<lambda>j. []) [CallRefresh 1700000000000 1700000000000] (new_store None))
     0 = AwaitingResponse"
    by (simp add: run_def refresh_def new_store_def getLastRefresh_def ACCESS_TIMEOUT_def
        updateLastRefresh_def Let_def)
  show ?thesis
    using h C8_transport_failure_hangs
        [where options = "[]" and recordActivity = True and qs = "(\<lambda>j. [])"
           and stringify = "(\<lambda>j. [])" and tostr = "(\<lambda>j. [])"
           and evs' = "[WatchTick 1700000005000, CallRefresh 1700000070000 1700000070000,
                        RefreshResponse 0 200]"
           and now = 1700000080000 and now' = 1700000080000 and url = "''/api/auth/user''",
         OF refl h refl]
    by (simp add: truthy_opt_def with_query_def rest_of_def)
qed

text \<open>
  Claim C9. When the key of the persisted clock is absent, \<open>getLastRefresh()\<close> is 0; so,
  at any clock reading of at least \<open>ACCESS_TIMEOUT\<close> milliseconds since the epoch and with
  no refresh in flight, \<open>refresh()\<close> issues the refresh call, and at any reading beyond
  \<open>REFRESH_TIMEOUT\<close> a tick of the session watch sets the expiry flag.
\<close>

theorem C9_absent_clock:
  assumes "lastRefreshed w = None"
  shows "getLastRefresh w = 0 \<and>
         (refreshPromise w = None \<and> ACCESS_TIMEOUT \<le> now \<longrightarrow>
            fst (refresh now now' w) = Awaits (nextPromise w) \<and>
            netlog (snd (refresh now now' w)) = netlog w @ [refresh_request]) \<and>
         (REFRESH_TIMEOUT < now \<longrightarrow> expired (sessionWatch now w))"
  using assms
  by (auto simp: getLastRefresh_def refresh_def updateLastRefresh_def Let_def sessionWatch_def)

theorem C9_absent_clock_witness:
  "lastRefreshed (clearLastRefresh (new_store (Some 1700000000000))) = None \<and>
   getLastRefresh (clearLastRefresh (new_store (Some 1700000000000))) = 0 \<and>
   fst (refresh 1700000001000 1700000001000 (clearLastRefresh (new_store (Some 1700000000000))))
     = Awaits 0 \<and>
   netlog (snd (refresh 1700000001000 1700000001000
                  (clearLastRefresh (new_store (Some 1700000000000)))))
     = [refresh_request] \<and>
   expired (sessionWatch 1700000001000 (clearLastRefresh (new_store (Some 1700000000000))))"
proof -
  have h: "lastRefreshed (clearLastRefresh (new_store (Some 1700000000000))) = None"
    by (simp add: clearLastRefresh_def)
  have n: "refreshPromise (clearLastRefresh (new_store (Some 1700000000000))) = None"
      "nextPromise (clearLastRefresh (new_store (Some 1700000000000))) = 0"
      "netlog (clearLastRefresh (new_store (Some 1700000000000))) = []"
    by (simp_all add: clearLastRefresh_def new_store_def)
  show ?thesis
    using h C9_absent_clock [OF h, of 1700000001000 1700000001000]
    by (simp add: n ACCESS_TIMEOUT_def REFRESH_TIMEOUT_def)
qed

section \<open>The session watch: claims\<close>

text \<open>
  Claim C4, as amended. A tick of the session watch sets the expiry flag exactly when
  \<open>now - lastRefreshedAt\<close> is strictly greater than \<open>REFRESH_TIMEOUT\<close>, and otherwise
  leaves the state as it is; so the flag is never set by a tick while the difference is at
  most the ceiling. With the persisted clock unchanged and a timer that was started before
  the crossing and runs on time, the first tick that sets the flag comes within one
  interval after the crossing.
\<close>

theorem C4_session_watch_strict:
  "sessionWatch now w
     = (if now - getLastRefresh w > REFRESH_TIMEOUT then w\<lparr>expired := True\<rparr> else w) \<and>
   expired (sessionWatch now w) = (expired w \<or> now - getLastRefresh w > REFRESH_TIMEOUT) \<and>
   (t0 \<le> getLastRefresh w + REFRESH_TIMEOUT \<longrightarrow>
      (\<exists>k. getLastRefresh w + REFRESH_TIMEOUT < tick_time t0 k \<and>
           tick_time t0 k \<le> getLastRefresh w + REFRESH_TIMEOUT + WATCH_INTERVAL \<and>
           expired (sessionWatch (tick_time t0 k) w) \<and>
           (\<forall>j<k. sessionWatch (tick_time t0 j) w = w)))"
proof -
  have a: "sessionWatch now w
     = (if now - getLastRefresh w > REFRESH_TIMEOUT then w\<lparr>expired := True\<rparr> else w)"
  proof -
    have "(getLastRefresh w + REFRESH_TIMEOUT < now) = (now - getLastRefresh w > REFRESH_TIMEOUT)"
      by linarith
    then show ?thesis by (simp add: sessionWatch_def)
  qed
  have b: "expired (sessionWatch now w) = (expired w \<or> now - getLastRefresh w > REFRESH_TIMEOUT)"
    by (simp add: a)
  have c: "\<exists>k. getLastRefresh w + REFRESH_TIMEOUT < tick_time t0 k \<and>
           tick_time t0 k \<le> getLastRefresh w + REFRESH_TIMEOUT + WATCH_INTERVAL \<and>
           expired (sessionWatch (tick_time t0 k) w) \<and>
           (\<forall>j<k. sessionWatch (tick_time t0 j) w = w)"
    if le: "t0 \<le> getLastRefresh w + REFRESH_TIMEOUT"
  proof -
    define c where "c = getLastRefresh w + REFRESH_TIMEOUT"
    define d where "d = nat ((c - t0) div 5000)"
    have nonneg: "0 \<le> (c - t0) div 5000"
      using le by (simp add: c_def)
    have di: "int d = (c - t0) div 5000"
      using nonneg by (simp add: d_def)
    have m: "0 \<le> (c - t0) mod 5000" "(c - t0) mod 5000 < 5000"
      by simp_all
    have "c - t0 = 5000 * ((c - t0) div 5000) + (c - t0) mod 5000"
      by simp
    then have lo: "5000 * int d \<le> c - t0" and hi: "c - t0 < 5000 * int d + 5000"
      using m unfolding di by linarith+
    have t1: "c < tick_time t0 (Suc d)" and t2: "tick_time t0 (Suc d) \<le> c + WATCH_INTERVAL"
      using lo hi by (simp_all add: tick_time_def WATCH_INTERVAL_def)
    have early: "tick_time t0 j \<le> c" if "j < Suc d" for j
    proof -
      have "int j \<le> int d" using that by simp
      then have "5000 * int j \<le> 5000 * int d" by simp
      then show ?thesis using lo by (simp add: tick_time_def WATCH_INTERVAL_def)
    qed
    have e: "expired (sessionWatch (tick_time t0 (Suc d)) w)"
      using t1 by (simp add: sessionWatch_def c_def)
    have f: "\<forall>j<Suc d. sessionWatch (tick_time t0 j) w = w"
    proof (intro allI impI)
      fix j assume "j < Suc d"
      then have "\<not> getLastRefresh w + REFRESH_TIMEOUT < tick_time t0 j"
        using early [of j] by (simp add: c_def)
      then show "sessionWatch (tick_time t0 j) w = w"
        by (simp add: sessionWatch_def)
    qed
    show ?thesis
      using t1 t2 e f unfolding c_def by blast
  qed
  show ?thesis
    using a b c by blast
qed

theorem C4_session_watch_strict_witness:
  "(1700000000000::int) \<le> getLastRefresh (new_store (Some 1700000000000)) + REFRESH_TIMEOUT \<and>
   \<not> expired (sessionWatch 1700000899997 (new_store (Some 1700000000000))) \<and>
   expired (sessionWatch 1700000899998 (new_store (Some 1700000000000))) \<and>
   (\<exists>k. 1700000899997 < tick_time 1700000000000 k \<and>
        tick_time 1700000000000 k \<le> 1700000904997 \<and>
        expired (sessionWatch (tick_time 1700000000000 k) (new_store (Some 1700000000000))) \<and>
        (\<forall>j<k. sessionWatch (tick_time 1700000000000 j) (new_store (Some 1700000000000))
                  = new_store (Some 1700000000000)))"
proof -
  have g: "getLastRefresh (new_store (Some 1700000000000)) = 1700000000000"
    by (simp add: new_store_def getLastRefresh_def)
  have e: "\<not> expired (new_store (Some 1700000000000))"
    by (simp add: new_store_def)
  have h: "(1700000000000::int) \<le> getLastRefresh (new_store (Some 1700000000000)) + REFRESH_TIMEOUT"
    by (simp add: g REFRESH_TIMEOUT_def)
  show ?thesis
    using h C4_session_watch_strict [of 1700000899997 "new_store (Some 1700000000000)" 1700000000000]
      C4_session_watch_strict [of 1700000899998 "new_store (Some 1700000000000)" 1700000000000]
    by (simp add: g e REFRESH_TIMEOUT_def WATCH_INTERVAL_def)
qed

theorem C4_session_watch_counterexample:
  "\<not> (expired (sessionWatch 1700000899997 (new_store (Some 1700000000000)))
        = (1700000899997 - getLastRefresh (new_store (Some 1700000000000)) \<ge> REFRESH_TIMEOUT))"
  by (simp add: sessionWatch_def getLastRefresh_def new_store_def REFRESH_TIMEOUT_def)

section \<open>The request client: claims\<close>




text \<open>
  Claim C5, as amended. \<open>fetch\<close> consults the refresh coordinator before the network call
  exactly when \<open>skipRefresh\<close> is not set and \<open>recordActivity\<close> is true. When
  \<open>skipRefresh\<close> is set or \<open>recordActivity\<close> is false, the call goes to the network at
  once and the refresh state is untouched, whatever the clock says. Otherwise the call
  waits for a refresh in flight, goes on at once when the token is fresh, and starts a
  refresh and waits for it when the token is stale. A call that waits is rejected with the
  failure of the refresh, without a network call, when the refresh promise is rejected; it
  issues its network call when the promise is fulfilled; and it keeps waiting while the
  promise is pending.
\<close>

theorem C5_fetch_gate:
  assumes "url' = with_query qs url options"
    and "ro = rest_of [''query'', ''skip401''] options"
    and "skip = truthy_opt (map_of options ''skip401'')"
  shows "(truthy_opt (map_of options ''skipRefresh'') \<or> \<not> recordActivity \<longrightarrow>
            fetch_begin qs url options recordActivity now now' w
              = (Sent url' (buildOptions ro) skip,
                 w\<lparr>netlog := netlog w @ [(url', buildOptions ro)]\<rparr>)) \<and>
         (\<not> truthy_opt (map_of options ''skipRefresh'') \<and> recordActivity \<longrightarrow>
            (\<forall>p. refreshPromise w = Some p \<longrightarrow>
               fetch_begin qs url options recordActivity now now' w = (Gated p url' ro skip, w)) \<and>
            (refreshPromise w = None \<and> now - getLastRefresh w < ACCESS_TIMEOUT \<longrightarrow>
               fetch_begin qs url options recordActivity now now' w
                 = (Sent url' (buildOptions ro) skip,
                    w\<lparr>netlog := netlog w @ [(url', buildOptions ro)]\<rparr>)) \<and>
            (refreshPromise w = None \<and> now - getLastRefresh w \<ge> ACCESS_TIMEOUT \<longrightarrow>
               fetch_begin qs url options recordActivity now now' w
                 = (Gated (nextPromise w) url' ro skip, snd (refresh now now' w)) \<and>
               netlog (snd (fetch_begin qs url options recordActivity now now' w))
                 = netlog w @ [refresh_request])) \<and>
         (\<forall>p e v. promises v p = Rejected e \<longrightarrow>
            fetch_resume (Gated p url' ro skip) v = (Aborted e, v)) \<and>
         (\<forall>p v. promises v p = Fulfilled \<longrightarrow>
            fetch_resume (Gated p url' ro skip) v
              = (Sent url' (buildOptions ro) skip,
                 v\<lparr>netlog := netlog v @ [(url', buildOptions ro)]\<rparr>)) \<and>
         (\<forall>p v. \<not> is_settled (promises v p) \<longrightarrow>
            fetch_resume (Gated p url' ro skip) v = (Gated p url' ro skip, v))"
proof -
  have skipped: "fetch_begin qs url options recordActivity now now' w
              = (Sent url' (buildOptions ro) skip,
                 w\<lparr>netlog := netlog w @ [(url', buildOptions ro)]\<rparr>)"
    if "truthy_opt (map_of options ''skipRefresh'') \<or> \<not> recordActivity"
    using that unfolding assms by (auto simp: fetch_begin_def fetch_send_def Let_def)
  have gate: "fetch_begin qs url options recordActivity now now' w
      = (case refresh now now' w of
           (Immediate, w') \<Rightarrow> fetch_send url' ro skip w'
         | (Awaits p, w') \<Rightarrow> (Gated p url' ro skip, w'))"
    if "\<not> truthy_opt (map_of options ''skipRefresh'') \<and> recordActivity"
    using that unfolding assms by (simp add: fetch_begin_def Let_def)
  have inflight: "fetch_begin qs url options recordActivity now now' w = (Gated p url' ro skip, w)"
    if "\<not> truthy_opt (map_of options ''skipRefresh'') \<and> recordActivity"
      and "refreshPromise w = Some p" for p
    using that(2) by (simp add: gate [OF that(1)] refresh_in_flight)
  have fresh: "fetch_begin qs url options recordActivity now now' w
                 = (Sent url' (buildOptions ro) skip,
                    w\<lparr>netlog := netlog w @ [(url', buildOptions ro)]\<rparr>)"
    if "\<not> truthy_opt (map_of options ''skipRefresh'') \<and> recordActivity"
      and "refreshPromise w = None" and "now - getLastRefresh w < ACCESS_TIMEOUT"
    using that(2,3) by (simp add: gate [OF that(1)] refresh_def fetch_send_def)
  have stale: "fetch_begin qs url options recordActivity now now' w
                 = (Gated (nextPromise w) url' ro skip, snd (refresh now now' w)) \<and>
               netlog (snd (fetch_begin qs url options recordActivity now now' w))
                 = netlog w @ [refresh_request]"
    if "\<not> truthy_opt (map_of options ''skipRefresh'') \<and> recordActivity"
      and "refreshPromise w = None" and "now - getLastRefresh w \<ge> ACCESS_TIMEOUT"
    using that(2,3) by (simp add: gate [OF that(1)] refresh_def updateLastRefresh_def Let_def)
  have resume: "\<forall>p e v. promises v p = Rejected e \<longrightarrow>
            fetch_resume (Gated p url' ro skip) v = (Aborted e, v)"
      "\<forall>p v. promises v p = Fulfilled \<longrightarrow>
            fetch_resume (Gated p url' ro skip) v
              = (Sent url' (buildOptions ro) skip,
                 v\<lparr>netlog := netlog v @ [(url', buildOptions ro)]\<rparr>)"
      "\<forall>p v. \<not> is_settled (promises v p) \<longrightarrow>
            fetch_resume (Gated p url' ro skip) v = (Gated p url' ro skip, v)"
    by (auto simp: fetch_resume_def fetch_send_def split: promise_state.splits)
  show ?thesis
    using skipped inflight fresh stale resume by blast
qed


theorem C5_fetch_gate_witness:
  "fetch_begin (\<lambda>j. []) ''/api/configs'' [(''skipRefresh'', JBool True)] True
       1700000000000 1700000000000 (new_store None)
     = (Sent ''/api/configs'' (buildOptions [(''skipRefresh'', JBool True)]) False,
        (new_store None)
          \<lparr>netlog := [(''/api/configs'', buildOptions [(''skipRefresh'', JBool True)])]\<rparr>) \<and>
   fetch_begin (\<lambda>j. []) ''/api/auth/user'' [] True 1700000000000 1700000000000 (new_store None)
     = (Gated 0 ''/api/auth/user'' [] False,
        snd (refresh 1700000000000 1700000000000 (new_store None))) \<and>
   promises
     (run (\<lambda>j. []) (\<lambda>j. []) (\<lambda>j. [])
        [CallRefresh 1700000000000 1700000000000, RefreshResponse 0 401,
         RefreshBody 0 (Some (JObj [(''error'', JStr ''invalid_token'')]))]
        (new_store None)) 0
     = Rejected (JsError ''invalid_token'' (Some 401)
                   (Some (JObj [(''error'', JStr ''invalid_token'')]))) \<and>
   fetch_resume (Gated 0 ''/api/auth/user'' [] False)
     (run (\<lambda>j. []) (\<lambda>j. []) (\<lambda>j. [])
        [CallRefresh 1700000000000 1700000000000, RefreshResponse 0 401,
         RefreshBody 0 (Some (JObj [(''error'', JStr ''invalid_token'')]))]
        (new_store None))
     = (Aborted (JsError ''invalid_token'' (Some 401)
                   (Some (JObj [(''error'', JStr ''invalid_token'')]))),
        run (\<lambda>j. []) (\<lambda>j. []) (\<lambda>j. [])
          [CallRefresh 1700000000000 1700000000000, RefreshResponse 0 401,
           RefreshBody 0 (Some (JObj [(''error'', JStr ''invalid_token'')]))]
          (new_store None))"
proof -
  have rej: "promises
     (run (\<lambda>j. []) (\<lambda>j. []) (\<lambda>j. [])
        [CallRefresh 1700000000000 1700000000000, RefreshResponse 0 401,
         RefreshBody 0 (Some (JObj [(''error'', JStr ''invalid_token'')]))]
        (new_store None)) 0
     = Rejected (JsError ''invalid_token'' (Some 401)
                   (Some (JObj [(''error'', JStr ''invalid_token'')])))"
    by (simp add: run_def refresh_def new_store_def getLastRefresh_def ACCESS_TIMEOUT_def
        updateLastRefresh_def Let_def refresh_response_def refresh_body_def
        responseErrorMsg_def truthy_member_def to_message_def)
  have st: "refreshPromise (new_store None) = None" "nextPromise (new_store None) = 0"
      "getLastRefresh (new_store None) = 0" "netlog (new_store None) = []"
    by (simp_all add: new_store_def getLastRefresh_def)
  show ?thesis
    using rej
      C5_fetch_gate [where options = "[(''skipRefresh'', JBool True)]" and recordActivity = True
        and qs = "(\<lambda>j. [])" and url = "''/api/configs''" and now = 1700000000000
        and now' = 1700000000000 and w = "new_store None", OF refl refl refl]
      C5_fetch_gate [where options = "[]" and recordActivity = True
        and qs = "(\<lambda>j. [])" and url = "''/api/auth/user''" and now = 1700000000000
        and now' = 1700000000000 and w = "new_store None", OF refl refl refl]
    by (simp add: st truthy_opt_def with_query_def rest_of_def ACCESS_TIMEOUT_def)
qed

theorem C5_fetch_gate_counterexample:
  "\<not> (\<not> (truthy_opt (map_of [] ''skipRefresh'') \<and> False) \<longrightarrow>
       refresh_request
         \<in> set (netlog (snd (fetch_begin (\<lambda>j. []) ''/api/auth/user'' [] False
                               1700000000000 1700000000000 (new_store None)))))"
  by (simp add: fetch_begin_def fetch_send_def Let_def truthy_opt_def new_store_def
      refresh_request_def with_query_def)

text \<open>
  Claim C6, as amended. For a response that is neither 2xx nor 504 and whose body is JSON,
  the call is rejected with an error that carries the status, the parsed body and the
  derived message, and the error field is set to the derived value. The derived value is
  \<open>body.error_description\<close> when that member is truthy, else \<open>body.error\<close> when that
  member is truthy, else the fallback made of the status code, \<open>" - "\<close> and the serialised
  body. In particular a body \<open>{error_description: "X"}\<close> gives \<open>"X"\<close>, a body
  \<open>{error: "Y"}\<close> gives \<open>"Y"\<close> (for non-empty \<open>X\<close>, \<open>Y\<close>), and the body \<open>{}\<close> with status
  500 gives a message that begins with \<open>500\<close>.
\<close>

theorem C6_error_message_truthy:
  assumes "\<not> resp_ok r" and "resp_status r \<noteq> 504" and "resp_json r = Some body"
  shows "fst (fetch_response stringify tostr skip r w)
           = Rejects (JsError (to_message tostr (responseErrorMsg stringify (resp_status r) body))
                        (Some (resp_status r)) (Some body)) \<and>
         error (snd (fetch_response stringify tostr skip r w))
           = responseErrorMsg stringify (resp_status r) body \<and>
         (\<forall>v. member_of body ''error_description'' = Some v \<and> truthy v \<longrightarrow>
              responseErrorMsg stringify (resp_status r) body = v) \<and>
         (\<forall>v. \<not> truthy_opt (member_of body ''error_description'') \<and>
              member_of body ''error'' = Some v \<and> truthy v \<longrightarrow>
              responseErrorMsg stringify (resp_status r) body = v) \<and>
         (\<not> truthy_opt (member_of body ''error_description'') \<and>
          \<not> truthy_opt (member_of body ''error'') \<longrightarrow>
              responseErrorMsg stringify (resp_status r) body
                = JStr (show_nat (resp_status r) @ '' - '' @ stringify body)) \<and>
         (\<forall>X. body = JObj [(''error_description'', JStr X)] \<and> X \<noteq> [] \<longrightarrow>
              to_message tostr (responseErrorMsg stringify (resp_status r) body) = X) \<and>
         (\<forall>Y. body = JObj [(''error'', JStr Y)] \<and> Y \<noteq> [] \<longrightarrow>
              to_message tostr (responseErrorMsg stringify (resp_status r) body) = Y) \<and>
         (body = JObj [] \<and> resp_status r = 500 \<longrightarrow>
              to_message tostr (responseErrorMsg stringify (resp_status r) body)
                = ''500 - '' @ stringify (JObj []))"
proof -
  have s500: "show_nat 500 = ''500''"
    by code_simp
  have a: "fetch_response stringify tostr skip r w
           = (Rejects (JsError (to_message tostr (responseErrorMsg stringify (resp_status r) body))
                        (Some (resp_status r)) (Some body)),
              (if skip \<and> resp_status r = 401 then w\<lparr>status := 200\<rparr>
               else w\<lparr>status := resp_status r\<rparr>)
                \<lparr>error := responseErrorMsg stringify (resp_status r) body\<rparr>)"
    using assms by (simp add: fetch_response_def Let_def)
  have b: "responseErrorMsg stringify st body =
       (case member_of body ''error_description'' of
          Some v \<Rightarrow> if truthy v then v
                    else (case member_of body ''error'' of
                            Some u \<Rightarrow> if truthy u then u
                                      else JStr (show_nat st @ '' - '' @ stringify body)
                          | None \<Rightarrow> JStr (show_nat st @ '' - '' @ stringify body))
        | None \<Rightarrow> (case member_of body ''error'' of
                            Some u \<Rightarrow> if truthy u then u
                                      else JStr (show_nat st @ '' - '' @ stringify body)
                          | None \<Rightarrow> JStr (show_nat st @ '' - '' @ stringify body)))" for st body
    by (simp add: responseErrorMsg_def truthy_member_eq split: option.splits)
  show ?thesis
    unfolding a by (auto simp: b truthy_opt_def to_message_def s500 split: option.splits)
qed


theorem C6_error_message_truthy_witness:
  "\<not> resp_ok \<lparr>resp_status = 400, resp_text = ''{\"error_description\":\"X\"}'',
                 resp_json = Some (JObj [(''error_description'', JStr ''X'')])\<rparr> \<and>
   fst (fetch_response (\<lambda>j. ''{}'') (\<lambda>j. []) False
          \<lparr>resp_status = 400, resp_text = ''{\"error_description\":\"X\"}'',
             resp_json = Some (JObj [(''error_description'', JStr ''X'')])\<rparr> (new_store None))
     = Rejects (JsError ''X'' (Some 400) (Some (JObj [(''error_description'', JStr ''X'')]))) \<and>
   fst (fetch_response (\<lambda>j. ''{}'') (\<lambda>j. []) False
          \<lparr>resp_status = 403, resp_text = ''{\"error\":\"Y\"}'',
             resp_json = Some (JObj [(''error'', JStr ''Y'')])\<rparr> (new_store None))
     = Rejects (JsError ''Y'' (Some 403) (Some (JObj [(''error'', JStr ''Y'')]))) \<and>
   fst (fetch_response (\<lambda>j. ''{}'') (\<lambda>j. []) False
          \<lparr>resp_status = 500, resp_text = ''{}'', resp_json = Some (JObj [])\<rparr> (new_store None))
     = Rejects (JsError ''500 - {}'' (Some 500) (Some (JObj []))) \<and>
   error (snd (fetch_response (\<lambda>j. ''{}'') (\<lambda>j. []) False
          \<lparr>resp_status = 500, resp_text = ''{}'', resp_json = Some (JObj [])\<rparr> (new_store None)))
     = JStr ''500 - {}''"
proof -
  have x: "\<not> resp_ok \<lparr>resp_status = 400, resp_text = ''{\"error_description\":\"X\"}'',
                 resp_json = Some (JObj [(''error_description'', JStr ''X'')])\<rparr>"
    and y: "\<not> resp_ok \<lparr>resp_status = 403, resp_text = ''{\"error\":\"Y\"}'',
                 resp_json = Some (JObj [(''error'', JStr ''Y'')])\<rparr>"
    and z: "\<not> resp_ok \<lparr>resp_status = 500, resp_text = ''{}'', resp_json = Some (JObj [])\<rparr>"
    by (simp_all add: resp_ok_def)
  show ?thesis
    using x
      C6_error_message_truthy [where stringify = "(\<lambda>j. ''{}'')" and tostr = "(\<lambda>j. [])"
        and skip = False and w = "new_store None", OF x]
      C6_error_message_truthy [where stringify = "(\<lambda>j. ''{}'')" and tostr = "(\<lambda>j. [])"
        and skip = False and w = "new_store None", OF y]
      C6_error_message_truthy [where stringify = "(\<lambda>j. ''{}'')" and tostr = "(\<lambda>j. [])"
        and skip = False and w = "new_store None", OF z]
    by (simp add: truthy_opt_def responseErrorMsg_def truthy_member_def to_message_def)
qed

theorem C6_error_message_counterexample:
  "\<not> (member_of (JObj [(''error_description'', JStr []), (''error'', JStr ''Y'')])
          ''error_description'' = Some (JStr []) \<longrightarrow>
       fst (fetch_response (\<lambda>j. []) (\<lambda>j. []) False
              \<lparr>resp_status = 400, resp_text = ''{\"error_description\":\"\",\"error\":\"Y\"}'',
                 resp_json = Some (JObj [(''error_description'', JStr []), (''error'', JStr ''Y'')])\<rparr>
              (new_store None))
         = Rejects (JsError [] (Some 400)
                      (Some (JObj [(''error_description'', JStr []), (''error'', JStr ''Y'')])))) \<and>
   \<not> (\<exists>e. fst (fetch_response (\<lambda>j. []) (\<lambda>j. []) False
                  \<lparr>resp_status = 502, resp_text = ''Bad Gateway'', resp_json = None\<rparr>
                  (new_store None)) = Rejects e)"
  by (simp add: fetch_response_def resp_ok_def Let_def responseErrorMsg_def truthy_member_def
      to_message_def)

section \<open>The upload client: claims\<close>

text \<open>
  A completion whose response text parses as JSON: status 200 resolves the call with the
  parsed value, any other status sets the upload error to the raw text and rejects the
  call with the parsed value.
\<close>

lemma upload_completion_parsed:
  assumes "readyState x = 4" and "responseJSON x = Some j"
  shows "fst (upload_readystatechange x w) = (if xhr_status x = 200 then Resolves j else Rejects j)"
    and "xhr_status x \<noteq> 200 \<Longrightarrow> uploadError (snd (upload_readystatechange x w)) = responseText x"
  using assms by (simp_all add: upload_readystatechange_def Let_def)

text \<open>
  Claim C7. When an upload completes with a status other than 200, the upload error is set
  to the raw response text and the call fails with the parsed body, or with the raw body
  when the text is not JSON. The code misses the last part: at a completion with status
  502 and the text \<open>Bad Gateway\<close>, the handler sets the status and the upload error, then
  \<open>JSON.parse\<close> throws inside the argument of \<open>reject\<close>, and the call is left unsettled
  instead of failing with the raw body.
\<close>

theorem C7_upload_unparsable_body:
  "upload_readystatechange
     \<lparr>readyState = 4, xhr_status = 502, responseText = ''Bad Gateway'', responseJSON = None\<rparr>
     (new_store None)
     = (Unsettled, (new_store None)\<lparr>status := 502, uploadError := ''Bad Gateway''\<rparr>)"
  by (simp add: upload_readystatechange_def Let_def)

section \<open>Control flags in the options: claims\<close>

text \<open>
  Claim C10. For options with distinct keys: the options that reach \<open>window.fetch\<close>, at
  once or when the refresh the call waits for is fulfilled, are built from the options
  without \<open>query\<close> and \<open>skip401\<close>, so neither key is among them, while the \<open>skipRefresh\<close>
  entry is forwarded as the caller gave it. And \<open>upload\<close> strips neither flag: when its
  request can be built (the platform accepts the method and the headers, and \<open>headers\<close> is
  not \<open>null\<close>), the request that reaches \<open>xhr.send\<close>, at once or when the refresh is
  fulfilled, has for every \<open>skipRefresh\<close> or \<open>skip401\<close> entry of the options a form field
  holding \<open>JSON.stringify\<close> of its value.
\<close>

theorem C10_control_flags_forwarded:
  assumes "distinct (map fst options)"
    and "ro = rest_of [''query'', ''skip401''] options"
    and "url' = with_query qs url options"
    and "skip = truthy_opt (map_of options ''skip401'')"
    and "opened"
    and "map_of options ''headers'' \<noteq> Some JNull"
  shows "(fetch_begin qs url options recordActivity now now' w
            = (Sent url' (buildOptions ro) skip,
               w\<lparr>netlog := netlog w @ [(url', buildOptions ro)]\<rparr>) \<or>
          (\<exists>p. fetch_begin qs url options recordActivity now now' w
                  = (Gated p url' ro skip, snd (refresh now now' w)) \<and>
               (\<forall>v. promises v p = Fulfilled \<longrightarrow>
                  fetch_resume (Gated p url' ro skip) v
                    = (Sent url' (buildOptions ro) skip,
                       v\<lparr>netlog := netlog v @ [(url', buildOptions ro)]\<rparr>)))) \<and>
         ''query'' \<notin> fst ` set (buildOptions ro) \<and>
         ''skip401'' \<notin> fst ` set (buildOptions ro) \<and>
         map_of (buildOptions ro) ''skipRefresh'' = map_of options ''skipRefresh'' \<and>
         (\<exists>req. upload_request qs stringify opened url fl options = Some req \<and>
            (\<forall>k v. k \<in> {''skipRefresh'', ''skip401''} \<and> (k, v) \<in> set options \<longrightarrow>
               (k, TextField (stringify v)) \<in> set (xhr_form req)) \<and>
            (upload_begin qs stringify opened url fl options recordActivity now now' w
               = (USent req, w\<lparr>xhrlog := xhrlog w @ [req]\<rparr>) \<or>
             (\<exists>p. upload_begin qs stringify opened url fl options recordActivity now now' w
                     = (UGated p (Some req), snd (refresh now now' w)) \<and>
                  (\<forall>v. promises v p = Fulfilled \<longrightarrow>
                     upload_resume (UGated p (Some req)) v
                       = (USent req, v\<lparr>xhrlog := xhrlog v @ [req]\<rparr>)))))"
proof -
  obtain res w1 where rw: "refresh now now' w = (res, w1)"
    by fastforce
  have imm: "w1 = w" if "res = Immediate"
    using rw that by (auto simp: refresh_def Let_def split: option.splits if_splits)
  have resume: "fetch_resume (Gated p url' ro skip) v
                    = (Sent url' (buildOptions ro) skip,
                       v\<lparr>netlog := netlog v @ [(url', buildOptions ro)]\<rparr>)"
    if "promises v p = Fulfilled" for p v
    using that by (simp add: fetch_resume_def fetch_send_def)
  have fetch_part: "fetch_begin qs url options recordActivity now now' w
            = (Sent url' (buildOptions ro) skip,
               w\<lparr>netlog := netlog w @ [(url', buildOptions ro)]\<rparr>) \<or>
          (\<exists>p. fetch_begin qs url options recordActivity now now' w
                  = (Gated p url' ro skip, snd (refresh now now' w)) \<and>
               (\<forall>v. promises v p = Fulfilled \<longrightarrow>
                  fetch_resume (Gated p url' ro skip) v
                    = (Sent url' (buildOptions ro) skip,
                       v\<lparr>netlog := netlog v @ [(url', buildOptions ro)]\<rparr>)))"
  proof (cases "\<not> truthy_opt (map_of options ''skipRefresh'') \<and> recordActivity")
    case False
    then show ?thesis
      unfolding assms(2,3,4) by (auto simp: fetch_begin_def fetch_send_def Let_def)
  next
    case True
    show ?thesis
    proof (cases res)
      case Immediate
      then show ?thesis
        using True rw imm unfolding assms(2,3,4)
        by (simp add: fetch_begin_def fetch_send_def Let_def)
    next
      case (Awaits p)
      have "fetch_begin qs url options recordActivity now now' w
              = (Gated p url' ro skip, snd (refresh now now' w))"
        using True rw Awaits unfolding assms(2,3,4) by (simp add: fetch_begin_def Let_def)
      then show ?thesis
        using resume by blast
    qed
  qed
  have keys: "''query'' \<notin> fst ` set (buildOptions ro)" "''skip401'' \<notin> fst ` set (buildOptions ro)"
    unfolding assms(2) by (simp_all add: keys_buildOptions keys_rest_of standard_def)
  have d: "distinct (map fst ro)"
    unfolding assms(2) using assms(1) by (rule distinct_rest_of)
  have "map_of (buildOptions ro) ''skipRefresh''
          = (case map_of ro ''skipRefresh'' of
               Some v \<Rightarrow> Some v
             | None \<Rightarrow> map_of standard ''skipRefresh'')"
    by (rule map_of_buildOptions_other [OF d]) simp
  then have kept: "map_of (buildOptions ro) ''skipRefresh'' = map_of options ''skipRefresh''"
    by (simp add: assms(2) map_of_rest_of standard_def split: option.splits)
  define req where "req =
     \<lparr>xhr_method = (case map_of options ''method'' of Some m \<Rightarrow> m | None \<Rightarrow> JStr ''POST''),
      xhr_url = with_query qs url options,
      xhr_headers = (case map_of options ''headers'' of Some h \<Rightarrow> own_entries h | None \<Rightarrow> []),
      xhr_form = map (\<lambda>(k, v). (k, TextField (stringify v)))
                   (rest_of [''method'', ''query'', ''headers''] options)
                   @ [(''file'', FileData fl)]\<rparr>"
  have built: "upload_request qs stringify opened url fl options = Some req"
    using assms(5,6) by (simp add: upload_request_def Let_def req_def)
  have form: "(k, TextField (stringify v)) \<in> set (xhr_form req)"
    if "k \<in> {''skipRefresh'', ''skip401''}" and "(k, v) \<in> set options" for k v
  proof -
    have "(k, v) \<in> set (rest_of [''method'', ''query'', ''headers''] options)"
      using that by (auto simp: rest_of_def)
    then have "(\<lambda>(k, v). (k, TextField (stringify v))) (k, v)
        \<in> set (map (\<lambda>(k, v). (k, TextField (stringify v)))
                 (rest_of [''method'', ''query'', ''headers''] options))"
      by (simp only: set_map) (rule imageI)
    then show ?thesis
      by (simp add: req_def)
  qed
  have uresume: "upload_resume (UGated p (Some req)) v
                       = (USent req, v\<lparr>xhrlog := xhrlog v @ [req]\<rparr>)"
    if "promises v p = Fulfilled" for p v
    using that by (simp add: upload_resume_def upload_send_def)
  have upload_part: "upload_begin qs stringify opened url fl options recordActivity now now' w
               = (USent req, w\<lparr>xhrlog := xhrlog w @ [req]\<rparr>) \<or>
             (\<exists>p. upload_begin qs stringify opened url fl options recordActivity now now' w
                     = (UGated p (Some req), snd (refresh now now' w)) \<and>
                  (\<forall>v. promises v p = Fulfilled \<longrightarrow>
                     upload_resume (UGated p (Some req)) v
                       = (USent req, v\<lparr>xhrlog := xhrlog v @ [req]\<rparr>)))"
  proof (cases "\<not> truthy_opt (map_of options ''skipRefresh'') \<and> recordActivity")
    case False
    then show ?thesis
      by (auto simp: upload_begin_def upload_send_def Let_def built)
  next
    case True
    show ?thesis
    proof (cases res)
      case Immediate
      then show ?thesis
        using True rw imm by (simp add: upload_begin_def upload_send_def Let_def built)
    next
      case (Awaits p)
      have "upload_begin qs stringify opened url fl options recordActivity now now' w
              = (UGated p (Some req), snd (refresh now now' w))"
        using True rw Awaits by (simp add: upload_begin_def Let_def built)
      then show ?thesis
        using uresume by blast
    qed
  qed
  show ?thesis
    using fetch_part keys kept built form upload_part by blast
qed


theorem C10_control_flags_forwarded_witness:
  "distinct (map fst [(''query'', JObj [(''page'', JNum 2)]), (''skipRefresh'', JBool True),
                      (''skip401'', JBool True)]) \<and>
   map_of [(''query'', JObj [(''page'', JNum 2)]), (''skipRefresh'', JBool True),
           (''skip401'', JBool True)] ''headers'' \<noteq> Some JNull \<and>
   fetch_begin (\<lambda>j. ''page=2'') ''/api/items''
       [(''query'', JObj [(''page'', JNum 2)]), (''skipRefresh'', JBool True),
        (''skip401'', JBool True)] True 1700000000000 1700000000000 (new_store None)
     = (Sent ''/api/items?page=2'' (buildOptions [(''skipRefresh'', JBool True)]) True,
        (new_store None)
          \<lparr>netlog := [(''/api/items?page=2'', buildOptions [(''skipRefresh'', JBool True)])]\<rparr>) \<and>
   map_of (buildOptions [(''skipRefresh'', JBool True)]) ''skipRefresh'' = Some (JBool True) \<and>
   ''query'' \<notin> fst ` set (buildOptions [(''skipRefresh'', JBool True)]) \<and>
   ''skip401'' \<notin> fst ` set (buildOptions [(''skipRefresh'', JBool True)]) \<and>
   upload_begin (\<lambda>j. ''page=2'') (\<lambda>j. ''true'') True ''/api/files'' ''data''
       [(''query'', JObj [(''page'', JNum 2)]), (''skipRefresh'', JBool True),
        (''skip401'', JBool True)] True 1700000000000 1700000000000 (new_store None)
     = (USent \<lparr>xhr_method = JStr ''POST'', xhr_url = ''/api/files?page=2'', xhr_headers = [],
                xhr_form = [(''skipRefresh'', TextField ''true''), (''skip401'', TextField ''true''),
                            (''file'', FileData ''data'')]\<rparr>,
        (new_store None)
          \<lparr>xhrlog := [\<lparr>xhr_method = JStr ''POST'', xhr_url = ''/api/files?page=2'',
                        xhr_headers = [],
                        xhr_form = [(''skipRefresh'', TextField ''true''),
                                    (''skip401'', TextField ''true''),
                                    (''file'', FileData ''data'')]\<rparr>]\<rparr>)"
proof -
  have d: "distinct (map fst [(''query'', JObj [(''page'', JNum 2)]), (''skipRefresh'', JBool True),
                      (''skip401'', JBool True)])"
    by simp
  have h: "map_of [(''query'', JObj [(''page'', JNum 2)]), (''skipRefresh'', JBool True),
           (''skip401'', JBool True)] ''headers'' \<noteq> Some JNull"
    by simp
  have r: "rest_of [''query'', ''skip401'']
             [(''query'', JObj [(''page'', JNum 2)]), (''skipRefresh'', JBool True),
              (''skip401'', JBool True)] = [(''skipRefresh'', JBool True)]"
    by (simp add: rest_of_def)
  note flags = C10_control_flags_forwarded [where qs = "(\<lambda>j. ''page=2'')"
        and stringify = "(\<lambda>j. ''true'')" and url = "''/api/items''" and fl = "''data''"
        and recordActivity = True and now = 1700000000000 and now' = 1700000000000
        and w = "new_store None", OF d r [symmetric] refl refl TrueI h]
  have kept: "map_of (buildOptions [(''skipRefresh'', JBool True)]) ''skipRefresh''
                = Some (JBool True)"
    using flags by simp
  have gone: "''query'' \<notin> fst ` set (buildOptions [(''skipRefresh'', JBool True)])"
      "''skip401'' \<notin> fst ` set (buildOptions [(''skipRefresh'', JBool True)])"
    using flags by blast+
  have sent: "fetch_begin (\<lambda>j. ''page=2'') ''/api/items''
       [(''query'', JObj [(''page'', JNum 2)]), (''skipRefresh'', JBool True),
        (''skip401'', JBool True)] True 1700000000000 1700000000000 (new_store None)
     = (Sent ''/api/items?page=2'' (buildOptions [(''skipRefresh'', JBool True)]) True,
        (new_store None)
          \<lparr>netlog := [(''/api/items?page=2'', buildOptions [(''skipRefresh'', JBool True)])]\<rparr>)"
    by (simp add: fetch_begin_def fetch_send_def Let_def truthy_opt_def with_query_def r
        new_store_def)
  have uploaded: "upload_begin (\<lambda>j. ''page=2'') (\<lambda>j. ''true'') True ''/api/files'' ''data''
       [(''query'', JObj [(''page'', JNum 2)]), (''skipRefresh'', JBool True),
        (''skip401'', JBool True)] True 1700000000000 1700000000000 (new_store None)
     = (USent \<lparr>xhr_method = JStr ''POST'', xhr_url = ''/api/files?page=2'', xhr_headers = [],
                xhr_form = [(''skipRefresh'', TextField ''true''), (''skip401'', TextField ''true''),
                            (''file'', FileData ''data'')]\<rparr>,
        (new_store None)
          \<lparr>xhrlog := [\<lparr>xhr_method = JStr ''POST'', xhr_url = ''/api/files?page=2'',
                        xhr_headers = [],
                        xhr_form = [(''skipRefresh'', TextField ''true''),
                                    (''skip401'', TextField ''true''),
                                    (''file'', FileData ''data'')]\<rparr>]\<rparr>)"
    by (simp add: upload_begin_def upload_send_def upload_request_def Let_def truthy_opt_def
        with_query_def rest_of_def new_store_def)
  show ?thesis
    using d h kept gone sent uploaded by simp
qed

end
